theory Spec2Isabelle
  imports Main "HOL-Library.Word"
begin

section \<open>Data of the Kafka admin client used by the topic manager\<close>

text \<open>
  The program manipulates values of the confluent-kafka-go client. Go's \<open>int\<close> fields are
  modelled as \<open>int\<close> (they are only compared and copied, never added to beyond counting),
  \<open>int32\<close> broker ids as \<open>32 word\<close>, and a per-topic result by its error code alone.
  Field names that several Go structs share carry a prefix here.
\<close>

type_synonym ErrorCode = int

definition ErrNoError :: ErrorCode where
  "ErrNoError = 0"

definition ErrTopicAlreadyExists :: ErrorCode where
  "ErrTopicAlreadyExists = 36"

record TopicSpecification =
  Topic :: string
  NumPartitions :: int
  ReplicationFactor :: int

record PartitionMetadata =
  ID :: "32 word"
  Replicas :: "32 word list"

record TopicMetadata =
  md_Topic :: string
  Partitions :: "PartitionMetadata list"

record TopicResult =
  res_Topic :: string
  res_Error :: ErrorCode

record PartitionsSpecification =
  ps_Topic :: string
  IncreaseTo :: int

section \<open>The retry classifier (manager.go, isRetryableError)\<close>

text \<open>
  An error value is observed by \<open>isRetryableError\<close> only through being nil or not and through
  its text, so it is a \<open>string option\<close> here. Texts are byte strings; \<open>ToLower\<close> is Go's
  \<open>strings.ToLower\<close> on ASCII text (bytes \<open>A\<close> to \<open>Z\<close> are shifted by 32, every other byte
  is kept), and \<open>Contains\<close> is \<open>strings.Contains\<close>, a scan for a contiguous occurrence.
\<close>

definition lowerByte :: "char \<Rightarrow> char" where
  "lowerByte c =
     (let n = (of_char c :: nat) in if 65 \<le> n \<and> n \<le> 90 then char_of (n + 32) else c)"

definition ToLower :: "string \<Rightarrow> string" where
  "ToLower s = map lowerByte s"

fun HasPrefix :: "string \<Rightarrow> string \<Rightarrow> bool" where
  "HasPrefix s [] = True"
| "HasPrefix [] (p # ps) = False"
| "HasPrefix (c # s) (p # ps) = (c = p \<and> HasPrefix s ps)"

fun Contains :: "string \<Rightarrow> string \<Rightarrow> bool" where
  "Contains [] substr = (substr = [])"
| "Contains (c # s) substr = (HasPrefix (c # s) substr \<or> Contains s substr)"

definition retryableErrors :: "string list" where
  "retryableErrors =
     [''connection refused'', ''connection closed'', ''timeout'', ''network is unreachable'',
      ''no such host'', ''connection reset by peer'', ''broken pipe'']"

text \<open>The \<open>for\<close> loop over \<open>retryableErrors\<close>, returning at the first match.\<close>

fun matchRetryable :: "string \<Rightarrow> string list \<Rightarrow> bool" where
  "matchRetryable errStr [] = False"
| "matchRetryable errStr (retryable # rest) =
     (if Contains (ToLower errStr) retryable then True else matchRetryable errStr rest)"

definition isRetryableError :: "string option \<Rightarrow> bool" where
  "isRetryableError err =
     (case err of None \<Rightarrow> False | Some errStr \<Rightarrow> matchRetryable errStr retryableErrors)"



section \<open>The admin gateway and the observable effects of a run\<close>

text \<open>
  The admin client is the program's only collaborator. A run is modelled with an explicit
  world: \<open>effects\<close> is the sequence of gateway calls and sleeps made so far, \<open>printed\<close> the
  diagnostics written so far (the warning, report and summary lines the properties below
  speak about; progress lines are left out). What the gateway answers may depend on
  everything that reached it before, so each capability is a function of the effects so
  far; a connection-level failure is \<open>Inl\<close> with the error text.
\<close>

datatype effect =
    CallGetMetadata
  | CallCreateTopics "TopicSpecification list"
  | CallCreatePartitions "PartitionsSpecification list"
  | Sleep nat

record topicScaleDownInfo =
  sd_topic :: string
  currentPartitions :: int
  desiredPartitions :: int

datatype diagnostic =
    ReplicationWarning string
  | CreateSummary nat nat nat
  | ScaleDownReport "topicScaleDownInfo list"
  | SyncSummary nat nat nat nat nat

record world =
  effects :: "effect list"
  printed :: "diagnostic list"

record AdminClient =
  GetMetadata :: "effect list \<Rightarrow> string + TopicMetadata list"
  CreateTopics :: "effect list \<Rightarrow> TopicSpecification list \<Rightarrow> string + TopicResult list"
  CreatePartitions ::
    "effect list \<Rightarrow> PartitionsSpecification list \<Rightarrow> string + TopicResult list"

text \<open>
  Errors built with \<open>fmt.Errorf\<close> keep their structure: one constructor for each format
  string of the program, carrying the formatted arguments.
\<close>

datatype error =
    GatewayError string
  | FailedGetMetadata error
  | FailedGetExistingTopics error
  | FailedCreateAttempt nat error
  | SomeTopicsFailed nat nat
  | FailedIncreaseCall string error
  | FailedIncreaseResult string ErrorCode
  | SomeOperationsFailed nat
  | FailedReadConfig string
  | FailedParseConfig string
  | TopicNameEmpty
  | NeedsPartition string
  | NeedsReplicationFactor string

definition call :: "effect \<Rightarrow> world \<Rightarrow> world" where
  "call e w = w\<lparr>effects := effects w @ [e]\<rparr>"

definition print :: "diagnostic \<Rightarrow> world \<Rightarrow> world" where
  "print d w = w\<lparr>printed := printed w @ [d]\<rparr>"

section \<open>Creating topics with bounded retry (manager.go, createTopicsFromSpecs)\<close>

text \<open>
  The loop over the per-topic results, with the three counters
  \<open>(successCount, existsCount, errorCount)\<close>.
\<close>

fun countResults :: "TopicResult list \<Rightarrow> nat \<times> nat \<times> nat \<Rightarrow> nat \<times> nat \<times> nat" where
  "countResults [] counts = counts"
| "countResults (result # results) (successCount, existsCount, errorCount) =
     (if res_Error result = ErrNoError
        then countResults results (successCount + 1, existsCount, errorCount)
      else if res_Error result = ErrTopicAlreadyExists
        then countResults results (successCount, existsCount + 1, errorCount)
      else countResults results (successCount, existsCount, errorCount + 1))"

definition maxRetries :: nat where
  "maxRetries = 2"

text \<open>
  The retry loop \<open>for attempt := 1; attempt <= maxRetries; attempt++\<close>. \<open>continue\<close> is the
  recursive call, \<open>break\<close> and the loop's end return \<open>lastErr\<close>, \<open>return nil\<close> returns
  \<open>None\<close>. \<open>time.Sleep\<close> of \<open>attempt\<close> seconds is recorded as an effect.
\<close>

function createAttempts ::
  "AdminClient \<Rightarrow> TopicSpecification list \<Rightarrow> nat \<Rightarrow> error option \<Rightarrow> world
     \<Rightarrow> error option \<times> world" where
  "createAttempts admin topicSpecs attempt lastErr w =
     (if attempt \<le> maxRetries then
        (case CreateTopics admin (effects w) topicSpecs of
           Inl err \<Rightarrow>
             (if attempt < maxRetries \<and> isRetryableError (Some err)
              then createAttempts admin topicSpecs (attempt + 1)
                     (Some (FailedCreateAttempt attempt (GatewayError err)))
                     (call (Sleep (attempt * 1)) (call (CallCreateTopics topicSpecs) w))
              else (Some (FailedCreateAttempt attempt (GatewayError err)),
                    call (CallCreateTopics topicSpecs) w))
         | Inr results \<Rightarrow>
             (case countResults results (0, 0, 0) of
                (successCount, existsCount, errorCount) \<Rightarrow>
                  (if errorCount = 0
                   then (None,
                         print (CreateSummary successCount existsCount errorCount)
                           (call (CallCreateTopics topicSpecs) w))
                   else (Some (SomeTopicsFailed errorCount (length topicSpecs)),
                         print (CreateSummary successCount existsCount errorCount)
                           (call (CallCreateTopics topicSpecs) w)))))
      else (lastErr, w))"
  by pat_completeness auto
termination
  by (relation "measure (\<lambda>(admin, topicSpecs, attempt, lastErr, w). maxRetries + 1 - attempt)")
     auto

declare createAttempts.simps [simp del]

definition createTopicsFromSpecs ::
  "AdminClient \<Rightarrow> TopicSpecification list \<Rightarrow> world \<Rightarrow> error option \<times> world" where
  "createTopicsFromSpecs admin topicSpecs w = createAttempts admin topicSpecs 1 None w"

definition TopicManager_CreateTopics ::
  "AdminClient \<Rightarrow> TopicSpecification list \<Rightarrow> world \<Rightarrow> error option \<times> world" where
  "TopicManager_CreateTopics admin topicSpecs w = createTopicsFromSpecs admin topicSpecs w"

section \<open>Synchronising topics (SyncTopics and its helpers)\<close>

record topicUpdateInfo =
  topic :: string
  current :: TopicMetadata
  desired :: TopicSpecification
  needsPartitionIncrease :: bool

record analysis =
  topicsToCreate :: "TopicSpecification list"
  topicsToUpdate :: "topicUpdateInfo list"
  cannotScaleDown :: "topicScaleDownInfo list"
  unchangedCount :: nat

text \<open>A Go run-time panic; the only one the program can raise is an index out of range.\<close>

datatype panic = IndexOutOfRange

text \<open>
  \<open>GetExistingTopics\<close>: one metadata call, then the loop that stores every topic under its
  own name. The gateway's answer is the sequence of topics in the order the loop visits
  them.
\<close>

fun topicsByName ::
  "TopicMetadata list \<Rightarrow> (string \<rightharpoonup> TopicMetadata) \<Rightarrow> (string \<rightharpoonup> TopicMetadata)" where
  "topicsByName [] topics = topics"
| "topicsByName (t # ts) topics = topicsByName ts (topics(md_Topic t \<mapsto> t))"

definition GetExistingTopics ::
  "AdminClient \<Rightarrow> world \<Rightarrow> (error + (string \<rightharpoonup> TopicMetadata)) \<times> world" where
  "GetExistingTopics admin w =
     (case GetMetadata admin (effects w) of
        Inl err \<Rightarrow> (Inl (FailedGetMetadata (GatewayError err)), call CallGetMetadata w)
      | Inr topics \<Rightarrow> (Inr (topicsByName topics Map.empty), call CallGetMetadata w))"

text \<open>
  The replication check
  \<open>len(existing.Partitions) > 0 && int32(spec.ReplicationFactor) != existing.Partitions[0].Replicas[0]\<close>:
  \<open>&&\<close> short-circuits on a topic without partitions, and indexing an empty \<open>Replicas\<close>
  slice panics. \<open>int32(_)\<close> keeps the low 32 bits.
\<close>

definition replicationDiffers :: "TopicSpecification \<Rightarrow> TopicMetadata \<Rightarrow> panic + bool" where
  "replicationDiffers spec existing =
     (case Partitions existing of
        [] \<Rightarrow> Inr False
      | p0 # _ \<Rightarrow>
          (case Replicas p0 of
             [] \<Rightarrow> Inl IndexOutOfRange
           | r0 # _ \<Rightarrow> Inr ((word_of_int (ReplicationFactor spec) :: 32 word) \<noteq> r0)))"

text \<open>
  One iteration of the loop "Analyze each desired topic"; \<open>current_n\<close> is the source's local
  \<open>currentPartitions\<close>. The scale-down entry is appended before the replication check, the
  update entry and the unchanged count after it.
\<close>

definition analyzeTopic ::
  "(string \<rightharpoonup> TopicMetadata) \<Rightarrow> TopicSpecification \<Rightarrow> analysis \<Rightarrow> world
     \<Rightarrow> (panic + analysis) \<times> world" where
  "analyzeTopic existingTopics spec a w =
     (case existingTopics (Topic spec) of
        None \<Rightarrow> (Inr (a\<lparr>topicsToCreate := topicsToCreate a @ [spec]\<rparr>), w)
      | Some existing \<Rightarrow>
          (let current_n = int (length (Partitions existing));
               needsUpdate = (NumPartitions spec > current_n);
               updateInfo = \<lparr>topic = Topic spec, current = existing, desired = spec,
                             needsPartitionIncrease = needsUpdate\<rparr>;
               a1 = (if NumPartitions spec > current_n then a
                     else if NumPartitions spec < current_n
                       then a\<lparr>cannotScaleDown := cannotScaleDown a @
                                [\<lparr>sd_topic = Topic spec, currentPartitions = current_n,
                                  desiredPartitions = NumPartitions spec\<rparr>]\<rparr>
                     else a)
           in case replicationDiffers spec existing of
                Inl p \<Rightarrow> (Inl p, w)
              | Inr differs \<Rightarrow>
                  (let w1 = (if differs then print (ReplicationWarning (Topic spec)) w else w);
                       a2 = (if needsUpdate
                               then a1\<lparr>topicsToUpdate := topicsToUpdate a1 @ [updateInfo]\<rparr>
                             else if NumPartitions spec = current_n
                               then a1\<lparr>unchangedCount := unchangedCount a1 + 1\<rparr>
                             else a1)
                   in (Inr a2, w1))))"

fun analyzeTopics ::
  "(string \<rightharpoonup> TopicMetadata) \<Rightarrow> TopicSpecification list \<Rightarrow> analysis \<Rightarrow> world
     \<Rightarrow> (panic + analysis) \<times> world" where
  "analyzeTopics existingTopics [] a w = (Inr a, w)"
| "analyzeTopics existingTopics (spec # specs) a w =
     (case analyzeTopic existingTopics spec a w of
        (Inl p, w') \<Rightarrow> (Inl p, w')
      | (Inr a', w') \<Rightarrow> analyzeTopics existingTopics specs a' w')"

definition initialAnalysis :: analysis where
  "initialAnalysis =
     \<lparr>topicsToCreate = [], topicsToUpdate = [], cannotScaleDown = [], unchangedCount = 0\<rparr>"

text \<open>\<open>increaseTopicPartitions\<close>: one call with one directive, then the first failed result.\<close>

fun checkPartitionResults :: "TopicResult list \<Rightarrow> error option" where
  "checkPartitionResults [] = None"
| "checkPartitionResults (result # results) =
     (if res_Error result \<noteq> ErrNoError
      then Some (FailedIncreaseResult (res_Topic result) (res_Error result))
      else checkPartitionResults results)"

definition increaseTopicPartitions ::
  "AdminClient \<Rightarrow> string \<Rightarrow> int \<Rightarrow> world \<Rightarrow> error option \<times> world" where
  "increaseTopicPartitions admin topicName newPartitionCount w =
     (let partitionSpec = [\<lparr>ps_Topic = topicName, IncreaseTo = newPartitionCount\<rparr>]
      in case CreatePartitions admin (effects w) partitionSpec of
           Inl err \<Rightarrow> (Some (FailedIncreaseCall topicName (GatewayError err)),
                        call (CallCreatePartitions partitionSpec) w)
         | Inr results \<Rightarrow> (checkPartitionResults results,
                            call (CallCreatePartitions partitionSpec) w))"

text \<open>The loop "Update existing topics", with the counters \<open>(updatedCount, failedCount)\<close>.\<close>

fun updateTopics ::
  "AdminClient \<Rightarrow> topicUpdateInfo list \<Rightarrow> nat \<times> nat \<Rightarrow> world \<Rightarrow> (nat \<times> nat) \<times> world" where
  "updateTopics admin [] counts w = (counts, w)"
| "updateTopics admin (update # updates) (updatedCount, failedCount) w =
     (if needsPartitionIncrease update then
        (case increaseTopicPartitions admin (topic update) (NumPartitions (desired update)) w of
           (Some err, w') \<Rightarrow> updateTopics admin updates (updatedCount, failedCount + 1) w'
         | (None, w') \<Rightarrow> updateTopics admin updates (updatedCount + 1, failedCount) w')
      else updateTopics admin updates (updatedCount, failedCount) w)"

text \<open>
  "Execute operations" to the end of \<open>SyncTopics\<close>: the create batch, the updates, the
  scale-down report, the summary line and the returned error.
\<close>

definition executeSync :: "AdminClient \<Rightarrow> analysis \<Rightarrow> world \<Rightarrow> error option \<times> world" where
  "executeSync admin a w =
     (case (if length (topicsToCreate a) > 0
            then (case createTopicsFromSpecs admin (topicsToCreate a) w of
                    (Some err, w') \<Rightarrow> ((0, length (topicsToCreate a)), w')
                  | (None, w') \<Rightarrow> ((length (topicsToCreate a), 0), w'))
            else ((0, 0), w)) of
        ((createdCount, failedCreate), w1) \<Rightarrow>
          (case (if length (topicsToUpdate a) > 0
                 then updateTopics admin (topicsToUpdate a) (0, failedCreate) w1
                 else ((0, failedCreate), w1)) of
             ((updatedCount, failedCount), w2) \<Rightarrow>
               (let w3 = (if length (cannotScaleDown a) > 0
                          then print (ScaleDownReport (cannotScaleDown a)) w2 else w2);
                    w4 = print (SyncSummary createdCount updatedCount (unchangedCount a)
                                  (length (cannotScaleDown a)) failedCount) w3
                in (if failedCount > 0 then Some (SomeOperationsFailed failedCount) else None,
                    w4))))"

definition SyncTopics ::
  "AdminClient \<Rightarrow> TopicSpecification list \<Rightarrow> world \<Rightarrow> (panic + error option) \<times> world" where
  "SyncTopics admin topicSpecs w =
     (case GetExistingTopics admin w of
        (Inl err, w1) \<Rightarrow> (Inr (Some (FailedGetExistingTopics err)), w1)
      | (Inr existingTopics, w1) \<Rightarrow>
          (case analyzeTopics existingTopics topicSpecs initialAnalysis w1 of
             (Inl p, w2) \<Rightarrow> (Inl p, w2)
           | (Inr a, w2) \<Rightarrow> (case executeSync admin a w2 of (r, w3) \<Rightarrow> (Inr r, w3))))"

section \<open>The classification as the specification words it\<close>

datatype classification =
    ToCreate
  | ToIncreasePartitions
  | CannotScaleDown string int int
  | Unchanged

definition classify :: "(string \<rightharpoonup> TopicMetadata) \<Rightarrow> TopicSpecification \<Rightarrow> classification" where
  "classify snapshot spec =
     (case snapshot (Topic spec) of
        None \<Rightarrow> ToCreate
      | Some actual \<Rightarrow>
          (if NumPartitions spec > int (length (Partitions actual)) then ToIncreasePartitions
           else if NumPartitions spec < int (length (Partitions actual))
             then CannotScaleDown (Topic spec) (int (length (Partitions actual)))
                    (NumPartitions spec)
           else Unchanged))"

text \<open>
  The condition under which the replication check of \<open>SyncTopics\<close> reads a sample that
  exists: every desired topic found in the snapshot with at least one partition has a
  replica on its first partition.
\<close>

definition replicasSampled ::
  "(string \<rightharpoonup> TopicMetadata) \<Rightarrow> TopicSpecification list \<Rightarrow> bool" where
  "replicasSampled existingTopics specs =
     list_all (\<lambda>spec. case existingTopics (Topic spec) of
                         None \<Rightarrow> True
                       | Some existing \<Rightarrow>
                           (case Partitions existing of
                              [] \<Rightarrow> True
                            | p0 # _ \<Rightarrow> Replicas p0 \<noteq> [])) specs"

text \<open>The report entry a classification carries, and the update directive sent for an entry
  of the update list.\<close>

definition scaleDownReportOf :: "classification \<Rightarrow> topicScaleDownInfo option" where
  "scaleDownReportOf c =
     (case c of
        CannotScaleDown name currentCount desiredCount \<Rightarrow>
          Some \<lparr>sd_topic = name, currentPartitions = currentCount,
                desiredPartitions = desiredCount\<rparr>
      | _ \<Rightarrow> None)"

definition directiveOf :: "topicUpdateInfo \<Rightarrow> PartitionsSpecification" where
  "directiveOf update =
     \<lparr>ps_Topic = topic update, IncreaseTo = NumPartitions (desired update)\<rparr>"

definition isReplicationWarning :: "diagnostic \<Rightarrow> bool" where
  "isReplicationWarning d = (case d of ReplicationWarning name \<Rightarrow> True | _ \<Rightarrow> False)"

text \<open>What the analysis loop guarantees of every entry it puts on the update list.\<close>

definition wellFormedUpdate :: "(string \<rightharpoonup> TopicMetadata) \<Rightarrow> topicUpdateInfo \<Rightarrow> bool" where
  "wellFormedUpdate existingTopics update \<longleftrightarrow>
     needsPartitionIncrease update \<and> topic update = Topic (desired update) \<and>
     existingTopics (topic update) = Some (current update)"

definition withoutWarnings :: "diagnostic list \<Rightarrow> diagnostic list" where
  "withoutWarnings ds = filter (\<lambda>d. \<not> isReplicationWarning d) ds"


section \<open>Comparing two analyses that differ in replication factors only\<close>





section \<open>Loading the desired topics and the program's entry point\<close>

text \<open>
  Reading the file and parsing its content are outside the program; their outcome is the
  input here. The repository holds two versions of \<open>GetAllTopicConfigs\<close>: the one that
  validates every record (beside \<open>loadConfig\<close>), and an earlier one that converts the
  records as they are.
\<close>

record TopicConfig =
  Name :: string
  cfg_Partitions :: int
  cfg_ReplicationFactor :: int
  Description :: string

datatype configFile =
    Unreadable string
  | Malformed string
  | Parsed "TopicConfig list"

fun validateAndConvert ::
  "TopicConfig list \<Rightarrow> TopicSpecification list \<Rightarrow> error + TopicSpecification list" where
  "validateAndConvert [] topicSpecs = Inr topicSpecs"
| "validateAndConvert (t # ts) topicSpecs =
     (if Name t = [] then Inl TopicNameEmpty
      else if cfg_Partitions t \<le> 0 then Inl (NeedsPartition (Name t))
      else if cfg_ReplicationFactor t \<le> 0 then Inl (NeedsReplicationFactor (Name t))
      else validateAndConvert ts
             (topicSpecs @ [\<lparr>Topic = Name t, NumPartitions = cfg_Partitions t,
                              ReplicationFactor = cfg_ReplicationFactor t\<rparr>]))"

definition GetAllTopicConfigs :: "configFile \<Rightarrow> error + TopicSpecification list" where
  "GetAllTopicConfigs file =
     (case file of
        Unreadable err \<Rightarrow> Inl (FailedReadConfig err)
      | Malformed err \<Rightarrow> Inl (FailedParseConfig err)
      | Parsed topics \<Rightarrow> validateAndConvert topics [])"

fun convertOnly ::
  "TopicConfig list \<Rightarrow> TopicSpecification list \<Rightarrow> TopicSpecification list" where
  "convertOnly [] topicSpecs = topicSpecs"
| "convertOnly (t # ts) topicSpecs =
     convertOnly ts
       (topicSpecs @ [\<lparr>Topic = Name t, NumPartitions = cfg_Partitions t,
                        ReplicationFactor = cfg_ReplicationFactor t\<rparr>])"

definition GetAllTopicConfigs_unvalidated :: "configFile \<Rightarrow> error + TopicSpecification list" where
  "GetAllTopicConfigs_unvalidated file =
     (case file of
        Unreadable err \<Rightarrow> Inl (FailedReadConfig err)
      | Malformed err \<Rightarrow> Inl (FailedParseConfig err)
      | Parsed topics \<Rightarrow> Inr (convertOnly topics []))"

text \<open>
  \<open>main\<close> of main.go. Its inputs are the two flags, the outcome of reading the configuration
  file, the outcome of \<open>loadConfig\<close> and \<open>getKafkaAdmin\<close>, and whether the context was
  cancelled by a signal when \<open>CreateTopics\<close> returned an error.
\<close>

datatype connection =
    ConfigError string
  | AdminError string
  | Connected AdminClient

datatype exit =
    UsageError
  | FatalTopicConfigs error
  | ListedTopics
  | FatalConfig string
  | FatalAdmin string
  | CancelledByUser
  | FatalCreate error
  | Completed

definition main ::
  "string \<Rightarrow> bool \<Rightarrow> configFile \<Rightarrow> connection \<Rightarrow> bool \<Rightarrow> world \<Rightarrow> exit \<times> world" where
  "main configFlag listTopics file conn cancelled w =
     (if configFlag = [] then (UsageError, w)
      else case GetAllTopicConfigs file of
             Inl err \<Rightarrow> (FatalTopicConfigs err, w)
           | Inr topicConfigs \<Rightarrow>
               (if listTopics then (ListedTopics, w)
                else case conn of
                       ConfigError err \<Rightarrow> (FatalConfig err, w)
                     | AdminError err \<Rightarrow> (FatalAdmin err, w)
                     | Connected adminClient \<Rightarrow>
                         (case TopicManager_CreateTopics adminClient topicConfigs w of
                            (Some err, w') \<Rightarrow>
                              (if cancelled then CancelledByUser else FatalCreate err, w')
                          | (None, w') \<Rightarrow> (Completed, w'))))"

section \<open>Example gateways and inputs\<close>

text \<open>
  Concrete gateways and desired specs on which the properties are evaluated. \<open>flakyAdmin\<close>
  refuses the first create call and accepts every later one; \<open>downAdmin\<close> times out always;
  \<open>answeringAdmin\<close> answers every create call with a fixed list of per-topic results;
  \<open>scenarioAdmin\<close> is the cluster of the specification's scenario (\<open>A\<close> and \<open>B\<close> with one
  partition each, no \<open>C\<close>) and accepts everything; \<open>pickyAdmin\<close> has a topic \<open>D\<close> with three
  partitions besides and rejects every partition increase for \<open>A\<close>; in \<open>unsampledAdmin\<close> the
  topic \<open>B\<close> has a first partition without replicas.
\<close>

definition isCreateCall :: "effect \<Rightarrow> bool" where
  "isCreateCall e = (case e of CallCreateTopics specs \<Rightarrow> True | _ \<Rightarrow> False)"

definition createdAll :: "TopicSpecification list \<Rightarrow> TopicResult list" where
  "createdAll specs = map (\<lambda>s. \<lparr>res_Topic = Topic s, res_Error = ErrNoError\<rparr>) specs"

definition flakyAdmin :: AdminClient where
  "flakyAdmin =
     \<lparr>GetMetadata = (\<lambda>h. Inr []),
      CreateTopics = (\<lambda>h specs. if list_ex isCreateCall h then Inr (createdAll specs)
                                 else Inl ''dial tcp 10.0.0.1:9092: connect: connection refused''),
      CreatePartitions = (\<lambda>h specs. Inr [])\<rparr>"

definition downAdmin :: AdminClient where
  "downAdmin =
     \<lparr>GetMetadata = (\<lambda>h. Inl ''Local: Broker transport failure''),
      CreateTopics = (\<lambda>h specs. Inl ''Local: Timed out (Timeout)''),
      CreatePartitions = (\<lambda>h specs. Inl ''Local: Timed out (Timeout)'')\<rparr>"


definition emptyWorld :: world where
  "emptyWorld = \<lparr>effects = [], printed = []\<rparr>"

definition topicA :: TopicSpecification where
  "topicA = \<lparr>Topic = ''A'', NumPartitions = 3, ReplicationFactor = 1\<rparr>"

definition topicB :: TopicSpecification where
  "topicB = \<lparr>Topic = ''B'', NumPartitions = 1, ReplicationFactor = 1\<rparr>"

definition topicC :: TopicSpecification where
  "topicC = \<lparr>Topic = ''C'', NumPartitions = 6, ReplicationFactor = 1\<rparr>"

definition acceptPartitions :: "PartitionsSpecification list \<Rightarrow> TopicResult list" where
  "acceptPartitions ps = map (\<lambda>p. \<lparr>res_Topic = ps_Topic p, res_Error = ErrNoError\<rparr>) ps"

definition unsampledB :: TopicMetadata where
  "unsampledB = \<lparr>md_Topic = ''B'', Partitions = [\<lparr>ID = 0, Replicas = []\<rparr>]\<rparr>"

definition unsampledAdmin :: AdminClient where
  "unsampledAdmin =
     \<lparr>GetMetadata = (\<lambda>h. Inr [unsampledB]),
      CreateTopics = (\<lambda>h specs. Inr (createdAll specs)),
      CreatePartitions = (\<lambda>h ps. Inr (acceptPartitions ps))\<rparr>"

definition onePartition :: "string \<Rightarrow> TopicMetadata" where
  "onePartition name = \<lparr>md_Topic = name, Partitions = [\<lparr>ID = 0, Replicas = [1]\<rparr>]\<rparr>"


definition rejectA :: "PartitionsSpecification list \<Rightarrow> TopicResult list" where
  "rejectA ps =
     map (\<lambda>p. \<lparr>res_Topic = ps_Topic p,
                res_Error = (if ps_Topic p = ''A'' then 37 else ErrNoError)\<rparr>) ps"

definition threePartitions :: "string \<Rightarrow> TopicMetadata" where
  "threePartitions name =
     \<lparr>md_Topic = name,
      Partitions = [\<lparr>ID = 0, Replicas = [1]\<rparr>, \<lparr>ID = 1, Replicas = [1]\<rparr>,
                    \<lparr>ID = 2, Replicas = [1]\<rparr>]\<rparr>"

definition pickyAdmin :: AdminClient where
  "pickyAdmin =
     \<lparr>GetMetadata = (\<lambda>h. Inr [onePartition ''A'', onePartition ''B'', threePartitions ''D'']),
      CreateTopics = (\<lambda>h specs. Inr (createdAll specs)),
      CreatePartitions = (\<lambda>h ps. Inr (rejectA ps))\<rparr>"

definition topicB2 :: TopicSpecification where
  "topicB2 = \<lparr>Topic = ''B'', NumPartitions = 2, ReplicationFactor = 1\<rparr>"



definition increaseOf :: "TopicSpecification \<Rightarrow> TopicMetadata \<Rightarrow> topicUpdateInfo" where
  "increaseOf spec existing =
     \<lparr>topic = Topic spec, current = existing, desired = spec, needsPartitionIncrease = True\<rparr>"



definition namelessConfig :: TopicConfig where
  "namelessConfig =
     \<lparr>Name = [], cfg_Partitions = 0, cfg_ReplicationFactor = 0, Description = []\<rparr>"

section \<open>Properties of the retry classifier\<close>







section \<open>Properties of topic creation with retry\<close>

lemma countResults_acc:
  "countResults results (s, e, x) =
     (s + length (filter (\<lambda>r. res_Error r = ErrNoError) results),
      e + length (filter (\<lambda>r. res_Error r = ErrTopicAlreadyExists) results),
      x + length (filter (\<lambda>r. res_Error r \<noteq> ErrNoError \<and> res_Error r \<noteq> ErrTopicAlreadyExists) results))"
  by (induction results arbitrary: s e x) (auto simp: ErrNoError_def ErrTopicAlreadyExists_def)


lemma createAttempts_results:
  assumes "attempt \<le> maxRetries"
    and "CreateTopics admin (effects w) topicSpecs = Inr results"
  shows "createAttempts admin topicSpecs attempt lastErr w =
     (let successCount = length (filter (\<lambda>r. res_Error r = ErrNoError) results);
          existsCount = length (filter (\<lambda>r. res_Error r = ErrTopicAlreadyExists) results);
          errorCount = length (filter (\<lambda>r. res_Error r \<noteq> ErrNoError \<and> res_Error r \<noteq> ErrTopicAlreadyExists) results)
      in (if errorCount = 0 then None else Some (SomeTopicsFailed errorCount (length topicSpecs)),
          print (CreateSummary successCount existsCount errorCount) (call (CallCreateTopics topicSpecs) w)))"
  using assms
  by (subst createAttempts.simps) (simp add: countResults_acc Let_def)

lemma createAttempts_terminal_error:
  assumes "attempt \<le> maxRetries"
    and "CreateTopics admin (effects w) topicSpecs = Inl err"
    and "\<not> (attempt < maxRetries \<and> isRetryableError (Some err))"
  shows "createAttempts admin topicSpecs attempt lastErr w =
     (Some (FailedCreateAttempt attempt (GatewayError err)), call (CallCreateTopics topicSpecs) w)"
  using assms
  by (subst createAttempts.simps) auto

lemma createAttempts_retry:
  assumes "attempt < maxRetries"
    and "CreateTopics admin (effects w) topicSpecs = Inl err"
    and "isRetryableError (Some err)"
  shows "createAttempts admin topicSpecs attempt lastErr w =
     createAttempts admin topicSpecs (attempt + 1)
       (Some (FailedCreateAttempt attempt (GatewayError err)))
       (call (Sleep (attempt * 1)) (call (CallCreateTopics topicSpecs) w))"
  using assms
  by (subst createAttempts.simps) simp

lemma effects_call [simp]: "effects (call e w) = effects w @ [e]"
  by (simp add: call_def)

lemma effects_print [simp]: "effects (print d w) = effects w"
  by (simp add: print_def)

lemma printed_call [simp]: "printed (call e w) = printed w"
  by (simp add: call_def)

lemma printed_print [simp]: "printed (print d w) = printed w @ [d]"
  by (simp add: print_def)

lemma createAttempts_last_attempt:
  "attempt = maxRetries \<Longrightarrow>
   effects (snd (createAttempts admin topicSpecs attempt lastErr w)) =
     effects w @ [CallCreateTopics topicSpecs]"
proof (cases "CreateTopics admin (effects w) topicSpecs")
  case (Inl err)
  assume "attempt = maxRetries"
  then show ?thesis using Inl by (simp add: createAttempts_terminal_error)
next
  case (Inr results)
  assume "attempt = maxRetries"
  then show ?thesis using Inr by (simp add: createAttempts_results Let_def)
qed

text \<open>
  Claim C2: \<open>createTopicsFromSpecs\<close> makes one or two gateway create attempts and no more.
  When the first call fails at connection level, a second attempt is made exactly when the
  error is retryable (attempt 1 being below the ceiling of 2), after a sleep of
  1 \<times> 1 second; a non-retryable failure ends the run with the wrapped error of attempt 1.
  First attempt refused with a retryable error and second attempt answered without
  per-topic errors: success after exactly two attempts. Both attempts failing: exactly two
  attempts, and the wrapped error of attempt 2 is returned.
\<close>

theorem createTopicsFromSpecs_retry_bound:
  assumes run: "createTopicsFromSpecs admin topicSpecs w = (r, w')"
  shows "(effects w' = effects w @ [CallCreateTopics topicSpecs] \<or>
          effects w' = effects w @ [CallCreateTopics topicSpecs, Sleep 1, CallCreateTopics topicSpecs])
    \<and> (\<forall>err. CreateTopics admin (effects w) topicSpecs = Inl err \<longrightarrow>
          ((effects w' = effects w @ [CallCreateTopics topicSpecs, Sleep 1, CallCreateTopics topicSpecs])
              \<longleftrightarrow> (isRetryableError (Some err) \<and> (1::nat) < maxRetries))
          \<and> (\<not> isRetryableError (Some err) \<longrightarrow>
                r = Some (FailedCreateAttempt 1 (GatewayError err))))
    \<and> (\<forall>err results.
          CreateTopics admin (effects w) topicSpecs = Inl err \<and> isRetryableError (Some err) \<and>
          CreateTopics admin (effects w @ [CallCreateTopics topicSpecs, Sleep 1]) topicSpecs = Inr results \<and>
          (\<forall>x \<in> set results. res_Error x = ErrNoError \<or> res_Error x = ErrTopicAlreadyExists)
          \<longrightarrow> r = None \<and>
              effects w' = effects w @ [CallCreateTopics topicSpecs, Sleep 1, CallCreateTopics topicSpecs])
    \<and> (\<forall>err err2.
          CreateTopics admin (effects w) topicSpecs = Inl err \<and> isRetryableError (Some err) \<and>
          CreateTopics admin (effects w @ [CallCreateTopics topicSpecs, Sleep 1]) topicSpecs = Inl err2
          \<longrightarrow> r = Some (FailedCreateAttempt 2 (GatewayError err2)) \<and>
              effects w' = effects w @ [CallCreateTopics topicSpecs, Sleep 1, CallCreateTopics topicSpecs])"
proof -
  let ?c = "CallCreateTopics topicSpecs"
  let ?w1 = "call (Sleep (1 * 1)) (call ?c w)"
  have first: "createAttempts admin topicSpecs 1 None w = (r, w')"
    using run by (simp add: createTopicsFromSpecs_def)
  have e1: "effects ?w1 = effects w @ [?c, Sleep 1]" by simp
  show ?thesis
  proof (cases "CreateTopics admin (effects w) topicSpecs")
    case (Inr results)
    have "effects w' = effects w @ [?c]"
      using first Inr by (auto simp: createAttempts_results maxRetries_def Let_def)
    then show ?thesis using Inr by simp
  next
    case (Inl err)
    show ?thesis
    proof (cases "isRetryableError (Some err)")
      case False
      have "(r, w') = (Some (FailedCreateAttempt 1 (GatewayError err)), call ?c w)"
        using first Inl False by (simp add: createAttempts_terminal_error maxRetries_def)
      then show ?thesis using Inl False by simp
    next
      case True
      have second: "createAttempts admin topicSpecs 2
                      (Some (FailedCreateAttempt 1 (GatewayError err))) ?w1 = (r, w')"
        using first createAttempts_retry [of 1, OF _ Inl True]
        by (simp add: maxRetries_def numeral_2_eq_2)
      have "effects (snd (createAttempts admin topicSpecs 2
                      (Some (FailedCreateAttempt 1 (GatewayError err))) ?w1)) = effects ?w1 @ [?c]"
        by (rule createAttempts_last_attempt) (simp add: maxRetries_def)
      then have eff: "effects w' = effects w @ [?c, Sleep 1, ?c]"
        unfolding second by simp
      have ok: "r = None"
        if "CreateTopics admin (effects w @ [?c, Sleep 1]) topicSpecs = Inr results"
          and "\<forall>x \<in> set results. res_Error x = ErrNoError \<or> res_Error x = ErrTopicAlreadyExists"
        for results
      proof -
        have "filter (\<lambda>r. res_Error r \<noteq> ErrNoError \<and> res_Error r \<noteq> ErrTopicAlreadyExists) results = []"
          using that(2) by (auto simp: filter_empty_conv)
        then show ?thesis
          using second that(1) e1 by (simp add: createAttempts_results maxRetries_def Let_def)
      qed
      have bad: "r = Some (FailedCreateAttempt 2 (GatewayError err2))"
        if "CreateTopics admin (effects w @ [?c, Sleep 1]) topicSpecs = Inl err2" for err2
        using second that e1 by (simp add: createAttempts_terminal_error maxRetries_def)
      show ?thesis using Inl True eff ok bad by (auto simp: maxRetries_def)
    qed
  qed
qed


theorem createTopicsFromSpecs_retry_bound_witness:
  "createTopicsFromSpecs flakyAdmin [topicC] emptyWorld =
     (None, \<lparr>effects = [CallCreateTopics [topicC], Sleep 1, CallCreateTopics [topicC]],
             printed = [CreateSummary 1 0 0]\<rparr>)
   \<and> CreateTopics flakyAdmin (effects emptyWorld) [topicC] =
        Inl ''dial tcp 10.0.0.1:9092: connect: connection refused''
   \<and> isRetryableError (Some ''dial tcp 10.0.0.1:9092: connect: connection refused'')
   \<and> CreateTopics flakyAdmin (effects emptyWorld @ [CallCreateTopics [topicC], Sleep 1]) [topicC] =
        Inr [\<lparr>res_Topic = ''C'', res_Error = ErrNoError\<rparr>]
   \<and> createTopicsFromSpecs downAdmin [topicC] emptyWorld =
     (Some (FailedCreateAttempt 2 (GatewayError ''Local: Timed out (Timeout)'')),
      \<lparr>effects = [CallCreateTopics [topicC], Sleep 1, CallCreateTopics [topicC]],
             printed = []\<rparr>)
   \<and> isRetryableError (Some ''Local: Timed out (Timeout)'')"
proof -
  have run: "createTopicsFromSpecs flakyAdmin [topicC] emptyWorld =
     (None, \<lparr>effects = [CallCreateTopics [topicC], Sleep 1, CallCreateTopics [topicC]],
             printed = [CreateSummary 1 0 0]\<rparr>)"
    by code_simp
  have a: "CreateTopics flakyAdmin (effects emptyWorld) [topicC] =
        Inl ''dial tcp 10.0.0.1:9092: connect: connection refused''"
    by code_simp
  have b: "isRetryableError (Some ''dial tcp 10.0.0.1:9092: connect: connection refused'')"
    by code_simp
  have c: "CreateTopics flakyAdmin (effects emptyWorld @ [CallCreateTopics [topicC], Sleep 1]) [topicC] =
        Inr [\<lparr>res_Topic = ''C'', res_Error = ErrNoError\<rparr>]"
    by code_simp
  have run2: "createTopicsFromSpecs downAdmin [topicC] emptyWorld =
     (Some (FailedCreateAttempt 2 (GatewayError ''Local: Timed out (Timeout)'')),
      \<lparr>effects = [CallCreateTopics [topicC], Sleep 1, CallCreateTopics [topicC]],
             printed = []\<rparr>)"
    by code_simp
  have d: "isRetryableError (Some ''Local: Timed out (Timeout)'')"
    by code_simp
  note t1 = createTopicsFromSpecs_retry_bound [OF run]
  note t2 = createTopicsFromSpecs_retry_bound [OF run2]
  from t1 t2 run a b c run2 d show ?thesis by blast
qed



section \<open>Properties of the analysis loop of SyncTopics\<close>

lemma replicasSampled_Cons:
  "replicasSampled ex (spec # specs) \<longleftrightarrow> replicasSampled ex [spec] \<and> replicasSampled ex specs"
  by (simp add: replicasSampled_def)

lemma analyzeTopic_step:
  assumes "replicasSampled ex [spec]"
  shows "\<exists>a' w'. analyzeTopic ex spec a w = (Inr a', w')
     \<and> topicsToCreate a' = topicsToCreate a @ filter (\<lambda>s. classify ex s = ToCreate) [spec]
     \<and> map desired (topicsToUpdate a') =
         map desired (topicsToUpdate a) @ filter (\<lambda>s. classify ex s = ToIncreasePartitions) [spec]
     \<and> (list_all (wellFormedUpdate ex) (topicsToUpdate a)
          \<longrightarrow> list_all (wellFormedUpdate ex) (topicsToUpdate a'))
     \<and> cannotScaleDown a' =
         cannotScaleDown a @ List.map_filter (\<lambda>s. scaleDownReportOf (classify ex s)) [spec]
     \<and> unchangedCount a' = unchangedCount a + length (filter (\<lambda>s. classify ex s = Unchanged) [spec])
     \<and> effects w' = effects w
     \<and> withoutWarnings (printed w') = withoutWarnings (printed w)"
  using assms
  by (auto simp: analyzeTopic_def classify_def replicationDiffers_def replicasSampled_def
        scaleDownReportOf_def List.map_filter_simps Let_def wellFormedUpdate_def
        isReplicationWarning_def withoutWarnings_def
      split: option.splits list.splits)

lemma analyzeTopic_panic:
  assumes "\<not> replicasSampled ex [spec]"
  shows "analyzeTopic ex spec a w = (Inl IndexOutOfRange, w)"
  using assms
  by (auto simp: analyzeTopic_def replicationDiffers_def replicasSampled_def Let_def
      split: option.splits list.splits)

lemma analyzeTopics_run:
  assumes "replicasSampled ex specs"
  shows "\<exists>a' w'. analyzeTopics ex specs a w = (Inr a', w')
     \<and> topicsToCreate a' = topicsToCreate a @ filter (\<lambda>s. classify ex s = ToCreate) specs
     \<and> map desired (topicsToUpdate a') =
         map desired (topicsToUpdate a) @ filter (\<lambda>s. classify ex s = ToIncreasePartitions) specs
     \<and> (list_all (wellFormedUpdate ex) (topicsToUpdate a)
          \<longrightarrow> list_all (wellFormedUpdate ex) (topicsToUpdate a'))
     \<and> cannotScaleDown a' =
         cannotScaleDown a @ List.map_filter (\<lambda>s. scaleDownReportOf (classify ex s)) specs
     \<and> unchangedCount a' = unchangedCount a + length (filter (\<lambda>s. classify ex s = Unchanged) specs)
     \<and> effects w' = effects w
     \<and> withoutWarnings (printed w') = withoutWarnings (printed w)"
  using assms
proof (induction specs arbitrary: a w)
  case Nil
  then show ?case by (simp add: List.map_filter_simps)
next
  case (Cons spec specs)
  from Cons.prems have h: "replicasSampled ex [spec]" and t: "replicasSampled ex specs"
    using replicasSampled_Cons by blast+
  from analyzeTopic_step [OF h, of a w] obtain a1 w1 where
    s: "analyzeTopic ex spec a w = (Inr a1, w1)"
    and s1: "topicsToCreate a1 = topicsToCreate a @ filter (\<lambda>s. classify ex s = ToCreate) [spec]"
    and s2: "map desired (topicsToUpdate a1) =
         map desired (topicsToUpdate a) @ filter (\<lambda>s. classify ex s = ToIncreasePartitions) [spec]"
    and s3: "list_all (wellFormedUpdate ex) (topicsToUpdate a)
          \<longrightarrow> list_all (wellFormedUpdate ex) (topicsToUpdate a1)"
    and s4: "cannotScaleDown a1 =
         cannotScaleDown a @ List.map_filter (\<lambda>s. scaleDownReportOf (classify ex s)) [spec]"
    and s5: "unchangedCount a1 = unchangedCount a + length (filter (\<lambda>s. classify ex s = Unchanged) [spec])"
    and s6: "effects w1 = effects w"
    and s7: "withoutWarnings (printed w1) = withoutWarnings (printed w)"
    by blast
  from Cons.IH [OF t, of a1 w1] obtain a2 w2 where
    r: "analyzeTopics ex specs a1 w1 = (Inr a2, w2)"
    and r1: "topicsToCreate a2 = topicsToCreate a1 @ filter (\<lambda>s. classify ex s = ToCreate) specs"
    and r2: "map desired (topicsToUpdate a2) =
         map desired (topicsToUpdate a1) @ filter (\<lambda>s. classify ex s = ToIncreasePartitions) specs"
    and r3: "list_all (wellFormedUpdate ex) (topicsToUpdate a1)
          \<longrightarrow> list_all (wellFormedUpdate ex) (topicsToUpdate a2)"
    and r4: "cannotScaleDown a2 =
         cannotScaleDown a1 @ List.map_filter (\<lambda>s. scaleDownReportOf (classify ex s)) specs"
    and r5: "unchangedCount a2 = unchangedCount a1 + length (filter (\<lambda>s. classify ex s = Unchanged) specs)"
    and r6: "effects w2 = effects w1"
    and r7: "withoutWarnings (printed w2) = withoutWarnings (printed w1)"
    by blast
  have run: "analyzeTopics ex (spec # specs) a w = (Inr a2, w2)"
    using s r by simp
  have c1: "topicsToCreate a2 = topicsToCreate a @ filter (\<lambda>s. classify ex s = ToCreate) (spec # specs)"
    using s1 r1 by simp
  have c2: "map desired (topicsToUpdate a2) =
         map desired (topicsToUpdate a) @ filter (\<lambda>s. classify ex s = ToIncreasePartitions) (spec # specs)"
    using s2 r2 by simp
  have c4: "cannotScaleDown a2 =
         cannotScaleDown a @ List.map_filter (\<lambda>s. scaleDownReportOf (classify ex s)) (spec # specs)"
    using s4 r4 by (simp add: List.map_filter_simps split: option.splits)
  have c5: "unchangedCount a2 = unchangedCount a + length (filter (\<lambda>s. classify ex s = Unchanged) (spec # specs))"
    using s5 r5 by simp
  show ?case
    using run c1 c2 s3 r3 c4 c5 s6 r6 s7 r7 by simp
qed

lemma analyzeTopics_panic:
  assumes "\<not> replicasSampled ex specs"
  shows "\<exists>w'. analyzeTopics ex specs a w = (Inl IndexOutOfRange, w') \<and> effects w' = effects w
           \<and> withoutWarnings (printed w') = withoutWarnings (printed w)"
  using assms
proof (induction specs arbitrary: a w)
  case Nil
  then show ?case by (simp add: replicasSampled_def)
next
  case (Cons spec specs)
  show ?case
  proof (cases "replicasSampled ex [spec]")
    case False
    then show ?thesis by (simp add: analyzeTopic_panic)
  next
    case True
    with Cons.prems have t: "\<not> replicasSampled ex specs"
      using replicasSampled_Cons by blast
    from analyzeTopic_step [OF True, of a w] obtain a1 w1 where
      s: "analyzeTopic ex spec a w = (Inr a1, w1)" and s6: "effects w1 = effects w"
      and s7: "withoutWarnings (printed w1) = withoutWarnings (printed w)"
      by blast
    from Cons.IH [OF t, of a1 w1] s s6 s7 show ?thesis by auto
  qed
qed


text \<open>
  Claim C1 asks that every desired spec is classified, for every snapshot. The loop does
  classify by the stated rules and in list order whenever every replication sample exists
  (\<open>analyzeTopics_classification\<close>), but on a snapshot in which the desired topic \<open>B\<close> has a
  first partition without replicas the loop panics although \<open>B\<close>, with one partition
  desired and one present, is to be classified as unchanged.
\<close>

theorem analyzeTopics_unsampled_topic_not_classified:
  "classify (topicsByName [unsampledB] Map.empty) topicB = Unchanged
   \<and> analyzeTopics (topicsByName [unsampledB] Map.empty) [topicB] initialAnalysis emptyWorld =
       (Inl IndexOutOfRange, emptyWorld)"
  by code_simp

text \<open>
  Claim C10: the analysis loop ends in an index-out-of-range panic exactly when some desired
  topic found in the snapshot has a first partition with an empty replica list (an existing
  topic without partitions is guarded), and then \<open>SyncTopics\<close> as a whole panics rather than
  returning nil or an error. Such a snapshot exists.
\<close>

theorem SyncTopics_replication_check_partial:
  "(fst (analyzeTopics existingTopics topicSpecs a w) = Inl IndexOutOfRange
      \<longleftrightarrow> \<not> replicasSampled existingTopics topicSpecs)
   \<and> (\<forall>topics. GetMetadata admin (effects w) = Inr topics \<and>
          \<not> replicasSampled (topicsByName topics Map.empty) topicSpecs
          \<longrightarrow> fst (SyncTopics admin topicSpecs w) = Inl IndexOutOfRange)
   \<and> fst (SyncTopics unsampledAdmin [topicB] emptyWorld) = Inl IndexOutOfRange"
proof (intro conjI allI impI)
  show "fst (analyzeTopics existingTopics topicSpecs a w) = Inl IndexOutOfRange
      \<longleftrightarrow> \<not> replicasSampled existingTopics topicSpecs"
  proof (cases "replicasSampled existingTopics topicSpecs")
    case True
    from analyzeTopics_run [OF True, of a w] show ?thesis using True by auto
  next
    case False
    from analyzeTopics_panic [OF False, of a w] show ?thesis using False by auto
  qed
next
  fix topics
  assume h: "GetMetadata admin (effects w) = Inr topics \<and>
          \<not> replicasSampled (topicsByName topics Map.empty) topicSpecs"
  then have g: "GetExistingTopics admin w =
                  (Inr (topicsByName topics Map.empty), call CallGetMetadata w)"
    by (simp add: GetExistingTopics_def)
  from h have n: "\<not> replicasSampled (topicsByName topics Map.empty) topicSpecs" by simp
  from analyzeTopics_panic [OF n, of initialAnalysis "call CallGetMetadata w"]
  show "fst (SyncTopics admin topicSpecs w) = Inl IndexOutOfRange"
    using g by (auto simp: SyncTopics_def)
next
  show "fst (SyncTopics unsampledAdmin [topicB] emptyWorld) = Inl IndexOutOfRange"
    by code_simp
qed

theorem SyncTopics_replication_check_partial_witness:
  "GetMetadata unsampledAdmin (effects emptyWorld) = Inr [unsampledB]
   \<and> \<not> replicasSampled (topicsByName [unsampledB] Map.empty) [topicB]
   \<and> SyncTopics unsampledAdmin [topicB] emptyWorld =
       (Inl IndexOutOfRange, \<lparr>effects = [CallGetMetadata], printed = []\<rparr>)
   \<and> replicasSampled (topicsByName [onePartition ''A'', onePartition ''B''] Map.empty)
         [topicA, topicB, topicC]
   \<and> fst (analyzeTopics (topicsByName [onePartition ''A'', onePartition ''B''] Map.empty)
            [topicA, topicB, topicC] initialAnalysis emptyWorld) \<noteq> Inl IndexOutOfRange"
proof -
  have a: "GetMetadata unsampledAdmin (effects emptyWorld) = Inr [unsampledB]"
    by code_simp
  have b: "\<not> replicasSampled (topicsByName [unsampledB] Map.empty) [topicB]"
    by code_simp
  have c: "SyncTopics unsampledAdmin [topicB] emptyWorld =
       (Inl IndexOutOfRange, \<lparr>effects = [CallGetMetadata], printed = []\<rparr>)"
    by code_simp
  have d: "replicasSampled (topicsByName [onePartition ''A'', onePartition ''B''] Map.empty)
         [topicA, topicB, topicC]"
    by code_simp
  from SyncTopics_replication_check_partial
         [of "topicsByName [onePartition ''A'', onePartition ''B''] Map.empty"
             "[topicA, topicB, topicC]" initialAnalysis emptyWorld unsampledAdmin]
       a b c d
  show ?thesis by blast
qed

section \<open>Properties of the partition-increase path\<close>

lemma checkPartitionResults_None_iff:
  "checkPartitionResults results = None \<longleftrightarrow> (\<forall>x \<in> set results. res_Error x = ErrNoError)"
  by (induction results) auto

lemma increaseTopicPartitions_world:
  "snd (increaseTopicPartitions admin topicName n w) =
     call (CallCreatePartitions [\<lparr>ps_Topic = topicName, IncreaseTo = n\<rparr>]) w"
  by (simp add: increaseTopicPartitions_def Let_def split: sum.splits)

lemma increaseTopicPartitions_ok_iff:
  "fst (increaseTopicPartitions admin topicName n w) = None \<longleftrightarrow>
     (\<exists>results. CreatePartitions admin (effects w) [\<lparr>ps_Topic = topicName, IncreaseTo = n\<rparr>] = Inr results
        \<and> (\<forall>x \<in> set results. res_Error x = ErrNoError))"
  by (auto simp: increaseTopicPartitions_def Let_def checkPartitionResults_None_iff split: sum.splits)

lemma updateTopics_run:
  assumes "list_all needsPartitionIncrease updates"
  shows "\<exists>u' f' w'. updateTopics admin updates (u, f) w = ((u', f'), w')
     \<and> effects w' = effects w @ map (\<lambda>x. CallCreatePartitions [directiveOf x]) updates
     \<and> printed w' = printed w
     \<and> u' + f' = u + f + length updates \<and> f \<le> f'"
  using assms
proof (induction updates arbitrary: u f w)
  case Nil
  then show ?case by simp
next
  case (Cons x xs)
  let ?w1 = "call (CallCreatePartitions [directiveOf x]) w"
  have need: "needsPartitionIncrease x" and rest: "list_all needsPartitionIncrease xs"
    using Cons.prems by simp_all
  obtain r where inc: "increaseTopicPartitions admin (topic x) (NumPartitions (desired x)) w = (r, ?w1)"
    using increaseTopicPartitions_world [of admin "topic x" "NumPartitions (desired x)" w]
    by (cases "increaseTopicPartitions admin (topic x) (NumPartitions (desired x)) w")
       (simp add: directiveOf_def)
  show ?case
  proof (cases r)
    case None
    from Cons.IH [OF rest, of "u + 1" f ?w1] obtain u' f' w' where
      "updateTopics admin xs (u + 1, f) ?w1 = ((u', f'), w')"
      "effects w' = effects ?w1 @ map (\<lambda>x. CallCreatePartitions [directiveOf x]) xs"
      "printed w' = printed ?w1" "u' + f' = u + 1 + f + length xs" "f \<le> f'"
      by blast
    then show ?thesis using need inc None by simp
  next
    case (Some err)
    from Cons.IH [OF rest, of u "f + 1" ?w1] obtain u' f' w' where
      "updateTopics admin xs (u, f + 1) ?w1 = ((u', f'), w')"
      "effects w' = effects ?w1 @ map (\<lambda>x. CallCreatePartitions [directiveOf x]) xs"
      "printed w' = printed ?w1" "u' + f' = u + (f + 1) + length xs" "f + 1 \<le> f'"
      by blast
    then show ?thesis using need inc Some by simp
  qed
qed

text \<open>
  Claim C8: \<open>increaseTopicPartitions\<close> adds exactly one effect, a single \<open>CreatePartitions\<close>
  call carrying the single directive \<open>{topic, IncreaseTo}\<close>, and returns nil exactly when
  the gateway answered and every per-topic result has \<open>ErrNoError\<close>; otherwise it returns an
  error. In the update loop of \<open>SyncTopics\<close> a failed increase adds one to \<open>failedCount\<close> and
  the loop goes on with the remaining updates: every queued update gets its own call, in
  order, whatever the earlier outcomes were, and each is counted as updated or as failed.
\<close>

theorem increaseTopicPartitions_single_shot:
  "(\<exists>r. increaseTopicPartitions admin topicName newPartitionCount w =
          (r, w\<lparr>effects := effects w @
                   [CallCreatePartitions
                      [\<lparr>ps_Topic = topicName, IncreaseTo = newPartitionCount\<rparr>]]\<rparr>)
        \<and> (r = None \<longleftrightarrow>
             (\<exists>results. CreatePartitions admin (effects w)
                           [\<lparr>ps_Topic = topicName, IncreaseTo = newPartitionCount\<rparr>] = Inr results
                \<and> (\<forall>x \<in> set results. res_Error x = ErrNoError))))
   \<and> (\<forall>err w1. needsPartitionIncrease update \<and>
          increaseTopicPartitions admin (topic update) (NumPartitions (desired update)) w
            = (Some err, w1)
          \<longrightarrow> updateTopics admin (update # updates) (updatedCount, failedCount) w =
                updateTopics admin updates (updatedCount, failedCount + 1) w1)
   \<and> (list_all needsPartitionIncrease updates \<longrightarrow>
        (\<exists>updatedCount' failedCount' w'.
            updateTopics admin updates (updatedCount, failedCount) w =
              ((updatedCount', failedCount'), w')
          \<and> effects w' = effects w @ map (\<lambda>x. CallCreatePartitions [directiveOf x]) updates
          \<and> updatedCount' + failedCount' = updatedCount + failedCount + length updates))"
proof (intro conjI allI impI)
  let ?p = "[\<lparr>ps_Topic = topicName, IncreaseTo = newPartitionCount\<rparr>]"
  have "snd (increaseTopicPartitions admin topicName newPartitionCount w) =
          w\<lparr>effects := effects w @ [CallCreatePartitions ?p]\<rparr>"
    by (simp add: increaseTopicPartitions_world call_def)
  then have eq: "increaseTopicPartitions admin topicName newPartitionCount w =
          (fst (increaseTopicPartitions admin topicName newPartitionCount w),
           w\<lparr>effects := effects w @ [CallCreatePartitions ?p]\<rparr>)"
    by (metis prod.collapse)
  have ok: "fst (increaseTopicPartitions admin topicName newPartitionCount w) = None \<longleftrightarrow>
             (\<exists>results. CreatePartitions admin (effects w) ?p = Inr results
                \<and> (\<forall>x \<in> set results. res_Error x = ErrNoError))"
    by (rule increaseTopicPartitions_ok_iff)
  show "\<exists>r. increaseTopicPartitions admin topicName newPartitionCount w =
          (r, w\<lparr>effects := effects w @ [CallCreatePartitions ?p]\<rparr>)
        \<and> (r = None \<longleftrightarrow>
             (\<exists>results. CreatePartitions admin (effects w) ?p = Inr results
                \<and> (\<forall>x \<in> set results. res_Error x = ErrNoError)))"
    by (rule exI [of _ "fst (increaseTopicPartitions admin topicName newPartitionCount w)"])
       (use eq ok in simp)
next
  fix err w1
  assume "needsPartitionIncrease update \<and>
          increaseTopicPartitions admin (topic update) (NumPartitions (desired update)) w
            = (Some err, w1)"
  then show "updateTopics admin (update # updates) (updatedCount, failedCount) w =
                updateTopics admin updates (updatedCount, failedCount + 1) w1"
    by simp
next
  assume "list_all needsPartitionIncrease updates"
  from updateTopics_run [OF this, of admin updatedCount failedCount w]
  show "\<exists>updatedCount' failedCount' w'.
            updateTopics admin updates (updatedCount, failedCount) w =
              ((updatedCount', failedCount'), w')
          \<and> effects w' = effects w @ map (\<lambda>x. CallCreatePartitions [directiveOf x]) updates
          \<and> updatedCount' + failedCount' = updatedCount + failedCount + length updates"
    by blast
qed


theorem increaseTopicPartitions_single_shot_witness:
  "needsPartitionIncrease (increaseOf topicA (onePartition ''A''))
   \<and> list_all needsPartitionIncrease [increaseOf topicB2 (onePartition ''B'')]
   \<and> increaseTopicPartitions pickyAdmin ''A'' 3 emptyWorld =
       (Some (FailedIncreaseResult ''A'' 37),
        \<lparr>effects = [CallCreatePartitions [\<lparr>ps_Topic = ''A'', IncreaseTo = 3\<rparr>]], printed = []\<rparr>)
   \<and> updateTopics pickyAdmin
        [increaseOf topicA (onePartition ''A''), increaseOf topicB2 (onePartition ''B'')]
        (0, 0) emptyWorld =
       ((1, 1),
        \<lparr>effects = [CallCreatePartitions [\<lparr>ps_Topic = ''A'', IncreaseTo = 3\<rparr>],
                    CallCreatePartitions [\<lparr>ps_Topic = ''B'', IncreaseTo = 2\<rparr>]],
          printed = []\<rparr>)
   \<and> updateTopics pickyAdmin [increaseOf topicB2 (onePartition ''B'')] (0, 0 + 1)
        \<lparr>effects = [CallCreatePartitions [\<lparr>ps_Topic = ''A'', IncreaseTo = 3\<rparr>]], printed = []\<rparr> =
       ((1, 1),
        \<lparr>effects = [CallCreatePartitions [\<lparr>ps_Topic = ''A'', IncreaseTo = 3\<rparr>],
                    CallCreatePartitions [\<lparr>ps_Topic = ''B'', IncreaseTo = 2\<rparr>]],
          printed = []\<rparr>)"
proof -
  let ?wA = "\<lparr>effects = [CallCreatePartitions [\<lparr>ps_Topic = ''A'', IncreaseTo = 3\<rparr>]], printed = []\<rparr>"
  have a: "needsPartitionIncrease (increaseOf topicA (onePartition ''A''))"
    by code_simp
  have b: "list_all needsPartitionIncrease [increaseOf topicB2 (onePartition ''B'')]"
    by code_simp
  have c: "increaseTopicPartitions pickyAdmin ''A'' 3 emptyWorld =
             (Some (FailedIncreaseResult ''A'' 37), ?wA)"
    by code_simp
  have c': "increaseTopicPartitions pickyAdmin
              (topic (increaseOf topicA (onePartition ''A'')))
              (NumPartitions (desired (increaseOf topicA (onePartition ''A'')))) emptyWorld =
             (Some (FailedIncreaseResult ''A'' 37), ?wA)"
    by code_simp
  have d: "updateTopics pickyAdmin
        [increaseOf topicA (onePartition ''A''), increaseOf topicB2 (onePartition ''B'')]
        (0, 0) emptyWorld =
       ((1, 1),
        \<lparr>effects = [CallCreatePartitions [\<lparr>ps_Topic = ''A'', IncreaseTo = 3\<rparr>],
                    CallCreatePartitions [\<lparr>ps_Topic = ''B'', IncreaseTo = 2\<rparr>]],
          printed = []\<rparr>)"
    by code_simp
  note t = increaseTopicPartitions_single_shot
             [of pickyAdmin "''A''" 3 emptyWorld "increaseOf topicA (onePartition ''A'')"
                 "[increaseOf topicB2 (onePartition ''B'')]" 0 0]
  from t a c' have "updateTopics pickyAdmin
        [increaseOf topicA (onePartition ''A''), increaseOf topicB2 (onePartition ''B'')]
        (0, 0) emptyWorld =
        updateTopics pickyAdmin [increaseOf topicB2 (onePartition ''B'')] (0, 0 + 1) ?wA"
    by blast
  with a b c d show ?thesis by simp
qed

section \<open>Properties of the execution phase and of whole runs of SyncTopics\<close>




















section \<open>Replication factors do not steer a run\<close>















section \<open>Properties of loading the desired topics\<close>

lemma validateAndConvert_rejects:
  assumes "t \<in> set topics"
    and "Name t = [] \<or> cfg_Partitions t \<le> 0 \<or> cfg_ReplicationFactor t \<le> 0"
  shows "\<exists>err. validateAndConvert topics acc = Inl err"
  using assms
  by (induction topics arbitrary: acc) auto

lemma validateAndConvert_valid:
  assumes "validateAndConvert topics acc = Inr specs"
  shows "specs = acc @ map (\<lambda>t. \<lparr>Topic = Name t, NumPartitions = cfg_Partitions t,
                                  ReplicationFactor = cfg_ReplicationFactor t\<rparr>) topics
         \<and> (\<forall>t \<in> set topics. Name t \<noteq> [] \<and> cfg_Partitions t > 0 \<and> cfg_ReplicationFactor t > 0)"
  using assms
proof (induction topics arbitrary: acc)
  case Nil
  then show ?case by simp
next
  case (Cons t ts)
  let ?s = "\<lparr>Topic = Name t, NumPartitions = cfg_Partitions t,
             ReplicationFactor = cfg_ReplicationFactor t\<rparr>"
  from Cons.prems have ok: "Name t \<noteq> []" "cfg_Partitions t > 0" "cfg_ReplicationFactor t > 0"
    and rest: "validateAndConvert ts (acc @ [?s]) = Inr specs"
    by (auto split: if_splits)
  from Cons.IH [OF rest] ok show ?case by simp
qed

lemma GetAllTopicConfigs_rejects_invalid:
  assumes "t \<in> set topics"
    and "Name t = [] \<or> cfg_Partitions t \<le> 0 \<or> cfg_ReplicationFactor t \<le> 0"
  shows "(\<exists>err. GetAllTopicConfigs (Parsed topics) = Inl err)
     \<and> (configFlag \<noteq> [] \<longrightarrow>
          (\<exists>err. main configFlag listTopics (Parsed topics) conn cancelled w =
                   (FatalTopicConfigs err, w)))
     \<and> effects (snd (main configFlag listTopics (Parsed topics) conn cancelled w)) = effects w"
proof -
  from validateAndConvert_rejects [OF assms, of "[]"] obtain err where
    e: "GetAllTopicConfigs (Parsed topics) = Inl err"
    by (auto simp: GetAllTopicConfigs_def)
  then show ?thesis by (auto simp: main_def)
qed

lemma GetAllTopicConfigs_accepts_valid_only:
  assumes "GetAllTopicConfigs (Parsed topics) = Inr specs"
  shows "\<forall>s \<in> set specs. Topic s \<noteq> [] \<and> NumPartitions s > 0 \<and> ReplicationFactor s > 0"
  using validateAndConvert_valid [of topics "[]" specs] assms
  by (auto simp: GetAllTopicConfigs_def)

text \<open>
  Claim C9 asks that loading fails on a record with an empty name or a non-positive count.
  The validating \<open>GetAllTopicConfigs\<close> does so, and \<open>main\<close> then stops before it touches
  the gateway (\<open>GetAllTopicConfigs_rejects_invalid\<close>); what it lets through is valid
  (\<open>GetAllTopicConfigs_accepts_valid_only\<close>). The earlier version of the function loads a
  record with an empty name and zero counts without an error.
\<close>

theorem GetAllTopicConfigs_unvalidated_accepts_empty_name:
  "GetAllTopicConfigs_unvalidated (Parsed [namelessConfig]) =
     Inr [\<lparr>Topic = [], NumPartitions = 0, ReplicationFactor = 0\<rparr>]
   \<and> GetAllTopicConfigs (Parsed [namelessConfig]) = Inl TopicNameEmpty"
  by code_simp

end
